theory Spec2Isabelle
  imports Main
begin

section \<open>Data model\<close>

text \<open>
  Modelled from the spec: the class \<open>SaleItem\<close> lives in \<open>models.py\<close>, which is not among
  the sources. Its three fields are the ones \<open>workflows.py\<close> constructs, reads and writes
  (\<open>sale_item_id\<close>, \<open>current_status\<close>, \<open>quantity\<close>); the quantity is a Python int, since it
  is only ever written from \<open>SaleItemWorkflowInput.quantity: int\<close>, from
  \<open>SaleItemSplitInput.quantity: int\<close> and by \<open>-=\<close> on such values.
\<close>

record SaleItem =
  sale_item_id :: string
  current_status :: string
  quantity :: int

text \<open>
  \<open>SaleItemWorkflowInput\<close>: the start input of the workflow. The field names carry the
  prefix \<open>input_\<close> because two records of one theory cannot share a field name.
  \<open>status: Optional[str] = None\<close> is an option.
\<close>

record SaleItemWorkflowInput =
  input_sale_item_id :: string
  input_quantity :: int
  input_status :: "string option"

text \<open>
  Every \<open>raise\<close> of \<open>workflows.py\<close> is an \<open>ApplicationError\<close> told apart by its message;
  each constructor names one raise site:
  \<^item> \<open>NotInitialized\<close>: \<open>ApplicationError("Sale item not initialized")\<close>;
  \<^item> \<open>InvalidTransition cur new\<close>: \<open>ApplicationError(f"Invalid status transition from
    {current_status} to {new_status}: {e}")\<close> in \<open>_check_status_transition\<close>;
  \<^item> \<open>InvalidStatus new\<close>: \<open>ApplicationError(f"Invalid status: {new_status}")\<close> in the
    default branch of the \<open>match\<close>;
  \<^item> \<open>InsufficientQuantity\<close>: \<open>ApplicationError("Not enough quantity to split sale item")\<close>;
  \<^item> \<open>ActivityError f\<close>: the exception that \<open>await workflow.execute_activity\<close> raises when
    the activity times out or fails;
  \<^item> \<open>ChildWorkflowError\<close>: the exception that \<open>await workflow.execute_child_workflow\<close>
    raises when the child fails;
  \<^item> \<open>AttributeError\<close>: an attribute access on \<open>self.sale_item\<close> while it is \<open>None\<close>.
\<close>

datatype activity_failure = ActionTimeout | ActionFailed

datatype error =
    NotInitialized
  | InvalidTransition string string
  | InvalidStatus string
  | InsufficientQuantity
  | ActivityError activity_failure
  | ChildWorkflowError
  | AttributeError

section \<open>The state machine guard\<close>

text \<open>The module-level dict \<open>transitions\<close>, in the order it is written.\<close>

definition transitions :: "(string \<times> string list) list" where
  "transitions =
     [(''open'', [''ready'']),
      (''ready'', [''open'', ''billed_pending'']),
      (''billed_pending'', [''billed_approved'']),
      (''billed_approved'', [''billed_pending''])]"

text \<open>Python's \<open>d.get(k, default)\<close> on a dict given as an association list.\<close>

definition dict_get :: "('k \<times> 'v) list \<Rightarrow> 'k \<Rightarrow> 'v \<Rightarrow> 'v" where
  "dict_get d k dflt = (case map_of d k of None \<Rightarrow> dflt | Some v \<Rightarrow> v)"

text \<open>
  \<open>class StateMachine\<close>: the field \<open>self.transitions\<close> is \<open>sm_transitions\<close> here, the name
  \<open>transitions\<close> being the module-level dict.
\<close>

record StateMachine =
  state :: string
  sm_transitions :: "(string \<times> string list) list"

definition StateMachine_init :: "string \<Rightarrow> (string \<times> string list) list \<Rightarrow> StateMachine" where
  "StateMachine_init initial_state tbl = \<lparr>state = initial_state, sm_transitions = tbl\<rparr>"

definition can_transition :: "StateMachine \<Rightarrow> string \<Rightarrow> bool" where
  "can_transition sm new_state \<longleftrightarrow> new_state \<in> set (dict_get (sm_transitions sm) (state sm) [])"

text \<open>\<open>ValueError(f"Invalid transition from {self.state} to {new_state}")\<close>.\<close>

datatype value_error = ValueError string string

definition transition :: "StateMachine \<Rightarrow> string \<Rightarrow> value_error + StateMachine" where
  "transition sm new_state =
     (if can_transition sm new_state then Inr (sm\<lparr>state := new_state\<rparr>)
      else Inl (ValueError (state sm) new_state))"

text \<open>
  \<open>SaleItemWorkflow._check_status_transition\<close>: a fresh state machine on the current
  status; a \<open>ValueError\<close> is caught and re-raised as an \<open>ApplicationError\<close>.
\<close>

definition check_status_transition :: "string \<Rightarrow> string \<Rightarrow> error + unit" where
  "check_status_transition cur new_status =
     (case transition (StateMachine_init cur transitions) new_status of
        Inl e \<Rightarrow> Inl (InvalidTransition cur new_status)
      | Inr sm \<Rightarrow> Inr ())"

section \<open>The workflow object\<close>

text \<open>
  The fields that \<open>SaleItemWorkflow.__init__\<close> sets, and \<open>approver_name\<close>, which
  \<open>mark_fulfilled\<close> adds. \<open>lock\<close> is \<open>True\<close> while the \<open>asyncio.Lock\<close> is held.
\<close>

record SaleItemWorkflow =
  lock :: bool
  should_update :: bool
  sale_item_fulfilled :: bool
  sale_item :: "SaleItem option"
  approver_name :: "string option"

definition SaleItemWorkflow_init :: SaleItemWorkflow where
  "SaleItemWorkflow_init =
     \<lparr>lock = False, should_update = False, sale_item_fulfilled = False,
      sale_item = None, approver_name = None\<rparr>"

text \<open>\<open>input.status or "open"\<close>: \<open>None\<close> and the empty string are both falsy.\<close>

definition status_or_open :: "string option \<Rightarrow> string" where
  "status_or_open st = (case st of None \<Rightarrow> ''open'' | Some s \<Rightarrow> if s = [] then ''open'' else s)"

text \<open>\<open>run\<close>, from its first line to the \<open>await workflow.wait_condition\<close>.\<close>

definition run_init :: "SaleItemWorkflow \<Rightarrow> SaleItemWorkflowInput \<Rightarrow> SaleItemWorkflow" where
  "run_init w inp =
     w\<lparr>sale_item := Some \<lparr>sale_item_id = input_sale_item_id inp,
                           current_status = status_or_open (input_status inp),
                           quantity = input_quantity inp\<rparr>,
       should_update := False\<rparr>"

text \<open>
  The predicate of \<open>workflow.wait_condition\<close>; \<open>all_handlers_finished\<close> is what
  \<open>workflow.all_handlers_finished()\<close> answers.
\<close>

definition wait_condition :: "SaleItemWorkflow \<Rightarrow> bool \<Rightarrow> bool" where
  "wait_condition w all_handlers_finished \<longleftrightarrow>
     (should_update w \<or> sale_item_fulfilled w) \<and> all_handlers_finished"

text \<open>
  \<open>run\<close>, after the wait: \<open>workflow.continue_as_new\<close> does not return (the instance ends and
  a fresh one starts on the given input), otherwise \<open>return {}\<close>.
\<close>

datatype run_result = ContinueAsNew SaleItemWorkflowInput | Returned

definition run_finish :: "SaleItemWorkflow \<Rightarrow> error + run_result" where
  "run_finish w =
     (if should_update w then
        (case sale_item w of
           None \<Rightarrow> Inl AttributeError
         | Some it \<Rightarrow>
             Inr (ContinueAsNew \<lparr>input_sale_item_id = sale_item_id it,
                                  input_quantity = quantity it,
                                  input_status = Some (current_status it)\<rparr>))
      else Inr Returned)"

text \<open>The signal \<open>mark_fulfilled\<close> (\<open>MarkFulfilledInput\<close> has the one field \<open>name\<close>).\<close>

definition mark_fulfilled :: "SaleItemWorkflow \<Rightarrow> string \<Rightarrow> SaleItemWorkflow" where
  "mark_fulfilled w name = w\<lparr>sale_item_fulfilled := True, approver_name := Some name\<rparr>"

definition update_workflow :: "SaleItemWorkflow \<Rightarrow> SaleItemWorkflow" where
  "update_workflow w = w\<lparr>should_update := True\<rparr>"

definition get_sale_item :: "SaleItemWorkflow \<Rightarrow> error + SaleItem" where
  "get_sale_item w = (case sale_item w of None \<Rightarrow> Inl NotInitialized | Some it \<Rightarrow> Inr it)"

definition get_transitions :: "(string \<times> string list) list" where
  "get_transitions = transitions"

section \<open>The update handler \<open>update_status\<close>\<close>

datatype activity =
    move_from_open_to_ready
  | move_from_ready_to_open
  | move_from_ready_to_billed_pending
  | move_from_billed_pending_to_billed_approved
  | post_update_activity

text \<open>
  \<open>update_status\<close> from its first line to the \<open>await\<close> of its \<open>match\<close>
  (\<open>SaleItemStatusUpdateInput\<close> has the one field \<open>status\<close>): the result is the error raised
  before any activity, or the activity that is executed and the entity it is given.
  Nothing is written to the workflow object in this part.
\<close>

definition update_status_dispatch :: "SaleItemWorkflow \<Rightarrow> string \<Rightarrow> error + activity \<times> SaleItem" where
  "update_status_dispatch w new_status =
     (case sale_item w of
        None \<Rightarrow> Inl NotInitialized
      | Some it \<Rightarrow>
          (case check_status_transition (current_status it) new_status of
             Inl e \<Rightarrow> Inl e
           | Inr u \<Rightarrow>
               if new_status = ''open'' then Inr (move_from_ready_to_open, it)
               else if new_status = ''ready'' then Inr (move_from_open_to_ready, it)
               else if new_status = ''billed_pending'' then Inr (move_from_ready_to_billed_pending, it)
               else if new_status = ''billed_approved''
                 then Inr (move_from_billed_pending_to_billed_approved, it)
               else Inl (InvalidStatus new_status)))"

text \<open>
  \<open>update_status\<close> from the return of the \<open>await\<close> to its \<open>return\<close>, on the workflow object
  as it is at that moment: a failed activity raises out of the handler; after a successful
  one the branch of \<open>billed_approved\<close> sets \<open>sale_item_fulfilled\<close>, then the status is
  written and the entity returned.
\<close>

definition update_status_resume ::
  "SaleItemWorkflow \<Rightarrow> string \<Rightarrow> activity_failure + unit \<Rightarrow> (error + SaleItem) \<times> SaleItemWorkflow" where
  "update_status_resume w new_status outcome =
     (case outcome of
        Inl f \<Rightarrow> (Inl (ActivityError f), w)
      | Inr u \<Rightarrow>
          (let w1 = (if new_status = ''billed_approved'' then w\<lparr>sale_item_fulfilled := True\<rparr> else w)
           in case sale_item w1 of
                None \<Rightarrow> (Inl AttributeError, w1)
              | Some it \<Rightarrow>
                  (let it' = it\<lparr>current_status := new_status\<rparr>
                   in (Inr it', w1\<lparr>sale_item := Some it'\<rparr>))))"

text \<open>
  The whole handler when no other handler runs during its \<open>await\<close>; \<open>env\<close> is the answer of
  the activity worker to the executed activity.
\<close>

definition update_status ::
  "SaleItemWorkflow \<Rightarrow> string \<Rightarrow> (activity \<Rightarrow> SaleItem \<Rightarrow> activity_failure + unit)
     \<Rightarrow> (error + SaleItem) \<times> SaleItemWorkflow" where
  "update_status w new_status env =
     (case update_status_dispatch w new_status of
        Inl e \<Rightarrow> (Inl e, w)
      | Inr (a, it) \<Rightarrow> update_status_resume w new_status (env a it))"

section \<open>The update handler \<open>split_sale_item\<close>\<close>

text \<open>
  What \<open>workflow.execute_child_workflow\<close> is called with: the start input of the child,
  its workflow id and its task queue.
\<close>

record ChildWorkflowStart =
  child_input :: SaleItemWorkflowInput
  child_id :: string
  child_task_queue :: string

text \<open>
  \<open>split_sale_item\<close> from its first line to the \<open>await\<close> of the child workflow, on the
  workflow object as it is when the lock is acquired (\<open>SaleItemSplitInput\<close> has the one
  field \<open>quantity\<close>). There is no suspension point between the acquisition and the
  \<open>await\<close>. The test \<open>self.sale_item.quantity is None\<close> is false on an int. When the
  handler raises inside \<open>async with\<close> the lock is released on the way out; when it reaches
  the \<open>await\<close> the lock stays held.
\<close>

definition split_sale_item_begin ::
  "SaleItemWorkflow \<Rightarrow> int \<Rightarrow> (error + ChildWorkflowStart) \<times> SaleItemWorkflow" where
  "split_sale_item_begin w q =
     (case sale_item w of
        None \<Rightarrow> (Inl NotInitialized, w)
      | Some it \<Rightarrow>
          if quantity it < q then (Inl InsufficientQuantity, w\<lparr>lock := False\<rparr>)
          else
            (let new_sale_item = \<lparr>sale_item_id = ''89101112'', current_status = ''open'', quantity = q\<rparr>;
                 it' = it\<lparr>quantity := quantity it - q\<rparr>
             in (Inr \<lparr>child_input = \<lparr>input_sale_item_id = sale_item_id new_sale_item,
                                       input_quantity = quantity new_sale_item,
                                       input_status = None\<rparr>,
                      child_id = ''sale-item-poc-workflow-'' @ sale_item_id new_sale_item,
                      child_task_queue = ''sale_item_poc_task_queue''\<rparr>,
                 w\<lparr>sale_item := Some it', lock := True\<rparr>)))"

text \<open>
  \<open>split_sale_item\<close> from the return of the \<open>await\<close> to its end: the result of the child
  (its \<open>run\<close> returns \<open>{}\<close>) is returned, or the child's failure raised, and the lock is
  released.
\<close>

datatype child_failure = ChildFailed

definition split_sale_item_resume ::
  "SaleItemWorkflow \<Rightarrow> child_failure + unit \<Rightarrow> (error + unit) \<times> SaleItemWorkflow" where
  "split_sale_item_resume w outcome =
     (case outcome of
        Inl f \<Rightarrow> (Inl ChildWorkflowError, w\<lparr>lock := False\<rparr>)
      | Inr r \<Rightarrow> (Inr r, w\<lparr>lock := False\<rparr>))"

section \<open>The activities\<close>

text \<open>
  \<open>activities.py\<close>: each of the five activities sleeps one second and returns \<open>None\<close>; none
  of them raises.
\<close>

definition run_activity :: "activity \<Rightarrow> SaleItem \<Rightarrow> activity_failure + unit" where
  "run_activity a it = Inr ()"

section \<open>One workflow instance and its handlers in flight\<close>

text \<open>
  A handler runs without interruption from one \<open>await\<close> to the next, and handlers
  interleave at their \<open>await\<close>s. An instance is the workflow object together with the
  handlers suspended at the \<open>await\<close> of an activity or of a child workflow, the child
  workflows started so far, and how far \<open>run\<close> has got.
\<close>

datatype pending = PendingUpdate string | PendingSplit

datatype phase = NotStarted | Waiting | Finished "error + run_result"

record execution =
  wf :: SaleItemWorkflow
  run_phase :: phase
  in_flight :: "pending list"
  children :: "ChildWorkflowStart list"

definition execution_init :: execution where
  "execution_init = \<lparr>wf = SaleItemWorkflow_init, run_phase = NotStarted, in_flight = [], children = []\<rparr>"

text \<open>
  The events of an instance; each is one uninterrupted piece of the code:
  \<^item> \<open>Start inp\<close>: \<open>run\<close> from its first line to its wait;
  \<^item> \<open>MarkFulfilled name\<close>, \<open>UpdateWorkflow\<close>: the two handlers without an \<open>await\<close>;
  \<^item> \<open>UpdateStatus s\<close>: \<open>update_status\<close> up to its \<open>await\<close>, or to the error it raises;
  \<^item> \<open>ActivityDone k r\<close>: the \<open>k\<close>-th handler in flight, an \<open>update_status\<close>, resumes with
    the activity's outcome \<open>r\<close>;
  \<^item> \<open>Split q\<close>: \<open>split_sale_item\<close> raises for want of an entity, or acquires the lock and
    runs up to its \<open>await\<close> or to the error it raises; while the lock is held the handler
    waits, so the event cannot happen;
  \<^item> \<open>ChildDone k r\<close>: the \<open>k\<close>-th handler in flight, a \<open>split_sale_item\<close>, resumes with the
    child's outcome \<open>r\<close>;
  \<^item> \<open>Wake\<close>: the wait of \<open>run\<close> ends, its condition being true, and \<open>run\<close> finishes.
  The queries change nothing and are not events. Handlers may run before \<open>run\<close> has
  started (which is why they test \<open>self.sale_item is None\<close>); nothing runs once \<open>run\<close> has
  finished.
\<close>

datatype event =
    Start SaleItemWorkflowInput
  | MarkFulfilled string
  | UpdateWorkflow
  | UpdateStatus string
  | ActivityDone nat "activity_failure + unit"
  | Split int
  | ChildDone nat "child_failure + unit"
  | Wake

text \<open>What the caller of an update gets back when its handler ends.\<close>

datatype reply = NoReply | UpdateStatusReply "error + SaleItem" | SplitReply "error + unit"

definition finished :: "execution \<Rightarrow> bool" where
  "finished i = (case run_phase i of Finished r \<Rightarrow> True | _ \<Rightarrow> False)"

definition remove_nth :: "nat \<Rightarrow> 'a list \<Rightarrow> 'a list" where
  "remove_nth k xs = take k xs @ drop (Suc k) xs"

text \<open>One event; \<open>None\<close> when the event cannot happen in this state.\<close>

fun step :: "execution \<Rightarrow> event \<Rightarrow> (reply \<times> execution) option" where
  "step i (Start inp) =
     (if run_phase i = NotStarted
      then Some (NoReply, i\<lparr>wf := run_init (wf i) inp, run_phase := Waiting\<rparr>)
      else None)"
| "step i (MarkFulfilled name) =
     (if finished i then None else Some (NoReply, i\<lparr>wf := mark_fulfilled (wf i) name\<rparr>))"
| "step i UpdateWorkflow =
     (if finished i then None else Some (NoReply, i\<lparr>wf := update_workflow (wf i)\<rparr>))"
| "step i (UpdateStatus new_status) =
     (if finished i then None
      else case update_status_dispatch (wf i) new_status of
             Inl e \<Rightarrow> Some (UpdateStatusReply (Inl e), i)
           | Inr a \<Rightarrow> Some (NoReply, i\<lparr>in_flight := in_flight i @ [PendingUpdate new_status]\<rparr>))"
| "step i (ActivityDone k outcome) =
     (if finished i \<or> length (in_flight i) \<le> k then None
      else case in_flight i ! k of
             PendingSplit \<Rightarrow> None
           | PendingUpdate new_status \<Rightarrow>
               (case update_status_resume (wf i) new_status outcome of
                  (r, w') \<Rightarrow>
                    Some (UpdateStatusReply r, i\<lparr>wf := w', in_flight := remove_nth k (in_flight i)\<rparr>)))"
| "step i (Split q) =
     (if finished i \<or> (sale_item (wf i) \<noteq> None \<and> lock (wf i)) then None
      else case split_sale_item_begin (wf i) q of
             (Inl e, w') \<Rightarrow> Some (SplitReply (Inl e), i\<lparr>wf := w'\<rparr>)
           | (Inr c, w') \<Rightarrow>
               Some (NoReply, i\<lparr>wf := w', in_flight := in_flight i @ [PendingSplit],
                                 children := children i @ [c]\<rparr>))"
| "step i (ChildDone k outcome) =
     (if finished i \<or> length (in_flight i) \<le> k then None
      else case in_flight i ! k of
             PendingUpdate new_status \<Rightarrow> None
           | PendingSplit \<Rightarrow>
               (case split_sale_item_resume (wf i) outcome of
                  (r, w') \<Rightarrow>
                    Some (SplitReply r, i\<lparr>wf := w', in_flight := remove_nth k (in_flight i)\<rparr>)))"
| "step i Wake =
     (if run_phase i = Waiting \<and> wait_condition (wf i) (in_flight i = [])
      then Some (NoReply, i\<lparr>run_phase := Finished (run_finish (wf i))\<rparr>)
      else None)"

text \<open>A sequence of events, from left to right.\<close>

fun steps :: "execution \<Rightarrow> event list \<Rightarrow> execution option" where
  "steps i [] = Some i"
| "steps i (ev # evs) = (case step i ev of None \<Rightarrow> None | Some (r, i') \<Rightarrow> steps i' evs)"

text \<open>The quantity of the entity, if there is one, and of every child started are not negative.\<close>

definition quantities_nonneg :: "execution \<Rightarrow> bool" where
  "quantities_nonneg i \<longleftrightarrow>
     (case sale_item (wf i) of None \<Rightarrow> True | Some it \<Rightarrow> 0 \<le> quantity it)
     \<and> list_all (\<lambda>c. 0 \<le> input_quantity (child_input c)) (children i)"

text \<open>The quantity an event brings in from outside, if any, is not negative.\<close>

fun event_nonneg :: "event \<Rightarrow> bool" where
  "event_nonneg (Start inp) = (0 \<le> input_quantity inp)"
| "event_nonneg (Split q) = (0 \<le> q)"
| "event_nonneg ev = True"

text \<open>
  What the handlers keep true of the statuses: the entity's status is never the empty
  string, no \<open>update_status\<close> in flight has the empty string as its target, and once \<open>run\<close>
  waits there is an entity.
\<close>

definition status_inv :: "execution \<Rightarrow> bool" where
  "status_inv i \<longleftrightarrow>
     (\<forall>it. sale_item (wf i) = Some it \<longrightarrow> current_status it \<noteq> [])
     \<and> (\<forall>s. PendingUpdate s \<in> set (in_flight i) \<longrightarrow> s \<noteq> [])
     \<and> (run_phase i = Waiting \<longrightarrow> sale_item (wf i) \<noteq> None)"

text \<open>The start input that \<open>starter.py\<close> passes to \<open>client.start_workflow\<close>.\<close>

definition starter_input :: SaleItemWorkflowInput where
  "starter_input = \<lparr>input_sale_item_id = ''1234567'', input_quantity = 10, input_status = None\<rparr>"

section \<open>Unfolding the handlers on concrete inputs\<close>

lemmas trace_defs =
  execution_init_def SaleItemWorkflow_init_def starter_input_def run_init_def status_or_open_def
  mark_fulfilled_def update_workflow_def finished_def remove_nth_def wait_condition_def
  run_finish_def update_status_dispatch_def update_status_resume_def check_status_transition_def
  transition_def can_transition_def StateMachine_init_def dict_get_def transitions_def
  split_sale_item_begin_def split_sale_item_resume_def Let_def

section \<open>Properties of the guard\<close>

lemma transitions_entries:
  "new_status \<in> set (dict_get transitions cur []) \<longleftrightarrow>
     (cur, new_status) \<in> {(''open'', ''ready''), (''ready'', ''open''), (''ready'', ''billed_pending''),
                          (''billed_pending'', ''billed_approved''), (''billed_approved'', ''billed_pending'')}"
  by (auto simp: dict_get_def transitions_def)

lemma check_status_transition_iff:
  "check_status_transition cur new_status =
     (if new_status \<in> set (dict_get transitions cur []) then Inr ()
      else Inl (InvalidTransition cur new_status))"
  by (simp add: check_status_transition_def transition_def can_transition_def StateMachine_init_def)

text \<open>
  C1: for every pair (current, target) with target not in the transition table entry of
  current, \<open>update_status\<close> on an entity whose status is current fails with
  \<open>InvalidTransition\<close> (carrying both states), whatever the activity worker would answer,
  and the workflow object, so the entity's status too, is the same after the call.
\<close>

theorem update_status_invalid_transition:
  assumes "sale_item w = Some it"
    and "new_status \<notin> set (dict_get transitions (current_status it) [])"
  shows "update_status w new_status env = (Inl (InvalidTransition (current_status it) new_status), w)"
  using assms by (simp add: update_status_def update_status_dispatch_def check_status_transition_iff)

theorem update_status_invalid_transition_witness:
  "update_status
     (SaleItemWorkflow_init\<lparr>sale_item := Some \<lparr>sale_item_id = ''1234567'',
        current_status = ''billed_approved'', quantity = 10\<rparr>\<rparr>)
     ''open'' (\<lambda>a it. Inr ())
   = (Inl (InvalidTransition ''billed_approved'' ''open''),
      SaleItemWorkflow_init\<lparr>sale_item := Some \<lparr>sale_item_id = ''1234567'',
        current_status = ''billed_approved'', quantity = 10\<rparr>\<rparr>)"
proof -
  let ?it = "\<lparr>sale_item_id = ''1234567'', current_status = ''billed_approved'', quantity = 10\<rparr>"
  let ?w = "SaleItemWorkflow_init\<lparr>sale_item := Some ?it\<rparr>"
  have h1: "sale_item ?w = Some ?it" by simp
  have h2: "''open'' \<notin> set (dict_get transitions (current_status ?it) [])"
    by (simp add: dict_get_def transitions_def)
  show ?thesis
    using update_status_invalid_transition [OF h1 h2, of "\<lambda>a it. Inr ()"] by simp
qed

section \<open>Properties of \<open>update_status\<close>\<close>

lemma update_status_dispatch_valid:
  assumes "sale_item w = Some it"
    and "new_status \<in> set (dict_get transitions (current_status it) [])"
  shows "\<exists>a. update_status_dispatch w new_status = Inr (a, it)"
  using assms
  by (auto simp: update_status_dispatch_def check_status_transition_iff transitions_entries)

text \<open>
  C2: for every pair (current, target) of the transition table, \<open>update_status\<close> with that
  target on an entity whose status is current, the executed activity succeeding, returns
  the entity with its status set to target and stores it, so that \<open>get_sale_item\<close> right
  after it reports the status target (and the same entity as the handler returned).
\<close>

theorem update_status_valid_sets_status:
  assumes "sale_item w = Some it"
    and "new_status \<in> set (dict_get transitions (current_status it) [])"
    and "\<forall>a it'. update_status_dispatch w new_status = Inr (a, it') \<longrightarrow> env a it' = Inr ()"
  shows "\<exists>w'. update_status w new_status env = (Inr (it\<lparr>current_status := new_status\<rparr>), w')
           \<and> get_sale_item w' = Inr (it\<lparr>current_status := new_status\<rparr>)
           \<and> current_status (it\<lparr>current_status := new_status\<rparr>) = new_status"
proof -
  from update_status_dispatch_valid [OF assms(1,2)]
  obtain a where a: "update_status_dispatch w new_status = Inr (a, it)" by blast
  with assms(3) have "env a it = Inr ()" by simp
  with a assms(1) show ?thesis
    by (simp add: update_status_def update_status_resume_def get_sale_item_def Let_def)
qed

theorem update_status_valid_sets_status_witness:
  "\<exists>w'. update_status
     (SaleItemWorkflow_init\<lparr>sale_item := Some \<lparr>sale_item_id = ''1234567'',
        current_status = ''open'', quantity = 10\<rparr>\<rparr>)
     ''ready'' (\<lambda>a it. Inr ())
     = (Inr \<lparr>sale_item_id = ''1234567'', current_status = ''ready'', quantity = 10\<rparr>, w')
     \<and> get_sale_item w' = Inr \<lparr>sale_item_id = ''1234567'', current_status = ''ready'', quantity = 10\<rparr>"
proof -
  let ?it = "\<lparr>sale_item_id = ''1234567'', current_status = ''open'', quantity = 10\<rparr>"
  let ?w = "SaleItemWorkflow_init\<lparr>sale_item := Some ?it\<rparr>"
  have h1: "sale_item ?w = Some ?it" by simp
  have h2: "''ready'' \<in> set (dict_get transitions (current_status ?it) [])"
    by (simp add: dict_get_def transitions_def)
  have h3: "\<forall>a it'. update_status_dispatch ?w ''ready'' = Inr (a, it')
              \<longrightarrow> (\<lambda>a it. Inr ()) a it' = (Inr () :: activity_failure + unit)" by simp
  show ?thesis
    using update_status_valid_sets_status [OF h1 h2 h3] by simp
qed

text \<open>
  C6: for every pair (current, target) of the transition table, when the activity that
  \<open>update_status\<close> executes for the target fails (timeout or remote fault), the handler
  fails with that failure and the workflow object, so the entity's status too, is left as
  it was: the status is written only after the activity has succeeded.
\<close>

theorem update_status_activity_failure:
  assumes "sale_item w = Some it"
    and "new_status \<in> set (dict_get transitions (current_status it) [])"
    and "\<forall>a it'. update_status_dispatch w new_status = Inr (a, it') \<longrightarrow> env a it' = Inl f"
  shows "update_status w new_status env = (Inl (ActivityError f), w)"
proof -
  from update_status_dispatch_valid [OF assms(1,2)]
  obtain a where a: "update_status_dispatch w new_status = Inr (a, it)" by blast
  with assms(3) have "env a it = Inl f" by simp
  with a show ?thesis
    by (simp add: update_status_def update_status_resume_def)
qed

theorem update_status_activity_failure_witness:
  "update_status
     (SaleItemWorkflow_init\<lparr>sale_item := Some \<lparr>sale_item_id = ''1234567'',
        current_status = ''billed_pending'', quantity = 10\<rparr>\<rparr>)
     ''billed_approved'' (\<lambda>a it. Inl ActionTimeout)
   = (Inl (ActivityError ActionTimeout),
      SaleItemWorkflow_init\<lparr>sale_item := Some \<lparr>sale_item_id = ''1234567'',
        current_status = ''billed_pending'', quantity = 10\<rparr>\<rparr>)"
proof -
  let ?it = "\<lparr>sale_item_id = ''1234567'', current_status = ''billed_pending'', quantity = 10\<rparr>"
  let ?w = "SaleItemWorkflow_init\<lparr>sale_item := Some ?it\<rparr>"
  have h1: "sale_item ?w = Some ?it" by simp
  have h2: "''billed_approved'' \<in> set (dict_get transitions (current_status ?it) [])"
    by (simp add: dict_get_def transitions_def)
  have h3: "\<forall>a it'. update_status_dispatch ?w ''billed_approved'' = Inr (a, it')
              \<longrightarrow> (\<lambda>a it. Inl ActionTimeout) a it' = (Inl ActionTimeout :: activity_failure + unit)"
    by simp
  show ?thesis
    using update_status_activity_failure [OF h1 h2 h3] by simp
qed

text \<open>
  The same two facts when other handlers have run during the \<open>await\<close>: the resumed handler
  works on the workflow object as it is then. After a successful activity it returns the
  entity of that moment with the target as its status; after a failed one it changes
  nothing.
\<close>

lemma update_status_resume_success:
  assumes "sale_item w = Some it"
  shows "\<exists>w'. update_status_resume w new_status (Inr ()) = (Inr (it\<lparr>current_status := new_status\<rparr>), w')
           \<and> get_sale_item w' = Inr (it\<lparr>current_status := new_status\<rparr>)"
  using assms by (simp add: update_status_resume_def get_sale_item_def Let_def)

lemma update_status_resume_failure:
  "update_status_resume w new_status (Inl f) = (Inl (ActivityError f), w)"
  by (simp add: update_status_resume_def)

text \<open>
  The default branch of the \<open>match\<close> is never taken: a target that passes the guard is a
  member of an entry of \<open>transitions\<close>, and all of those are among the four statuses the
  \<open>match\<close> names.
\<close>

lemma update_status_never_InvalidStatus:
  "fst (update_status w new_status env) \<noteq> Inl (InvalidStatus s)"
  by (auto simp: update_status_def update_status_dispatch_def update_status_resume_def
        check_status_transition_iff transitions_entries Let_def
      split: option.splits sum.splits)

text \<open>
  C5, as the code has it: for every initialized entity and every target status that is
  not one of \<open>open\<close>, \<open>ready\<close>, \<open>billed_pending\<close>, \<open>billed_approved\<close>, \<open>update_status\<close> fails
  in the guard, with \<open>InvalidTransition\<close> carrying the current status and the target, and
  the workflow object is unchanged. (The claim says \<open>InvalidStatus\<close>; the guard runs before
  the \<open>match\<close>.)
\<close>

theorem update_status_unknown_target:
  assumes "sale_item w = Some it"
    and "new_status \<notin> {''open'', ''ready'', ''billed_pending'', ''billed_approved''}"
  shows "update_status w new_status env = (Inl (InvalidTransition (current_status it) new_status), w)"
  using assms
  by (auto simp: update_status_def update_status_dispatch_def check_status_transition_iff
        transitions_entries)

theorem update_status_unknown_target_witness:
  "update_status
     (SaleItemWorkflow_init\<lparr>sale_item := Some \<lparr>sale_item_id = ''1234567'',
        current_status = ''open'', quantity = 10\<rparr>\<rparr>)
     ''closed'' (\<lambda>a it. Inr ())
   = (Inl (InvalidTransition ''open'' ''closed''),
      SaleItemWorkflow_init\<lparr>sale_item := Some \<lparr>sale_item_id = ''1234567'',
        current_status = ''open'', quantity = 10\<rparr>\<rparr>)"
proof -
  let ?it = "\<lparr>sale_item_id = ''1234567'', current_status = ''open'', quantity = 10\<rparr>"
  let ?w = "SaleItemWorkflow_init\<lparr>sale_item := Some ?it\<rparr>"
  have h1: "sale_item ?w = Some ?it" by simp
  have h2: "''closed'' \<notin> {''open'', ''ready'', ''billed_pending'', ''billed_approved''}" by simp
  show ?thesis
    using update_status_unknown_target [OF h1 h2, of "\<lambda>a it. Inr ()"] by simp
qed

text \<open>
  C5 as stated fails: on an initialized entity with status \<open>open\<close>, with the activities
  of \<open>activities.py\<close>, the unknown target \<open>closed\<close> is answered with \<open>InvalidTransition\<close>,
  not with \<open>InvalidStatus\<close>.
\<close>

theorem update_status_unknown_target_counterexample:
  "fst (update_status
     (SaleItemWorkflow_init\<lparr>sale_item := Some \<lparr>sale_item_id = ''1234567'',
        current_status = ''open'', quantity = 10\<rparr>\<rparr>)
     ''closed'' run_activity)
   = Inl (InvalidTransition ''open'' ''closed'')
   \<and> fst (update_status
     (SaleItemWorkflow_init\<lparr>sale_item := Some \<lparr>sale_item_id = ''1234567'',
        current_status = ''open'', quantity = 10\<rparr>\<rparr>)
     ''closed'' run_activity)
   \<noteq> Inl (InvalidStatus ''closed'')"
  by (simp add: update_status_def update_status_dispatch_def check_status_transition_def
        transition_def can_transition_def StateMachine_init_def dict_get_def transitions_def
        SaleItemWorkflow_init_def run_activity_def)

section \<open>The run method after the wait\<close>

text \<open>
  C9: when both \<open>should_update\<close> and \<open>sale_item_fulfilled\<close> are set and all handlers have
  finished, the wait is over and \<open>run\<close> continues as new on the current entity instead of
  returning: \<open>should_update\<close> is tested first.
\<close>

theorem run_finish_restart_first:
  assumes "should_update w" and "sale_item_fulfilled w" and "sale_item w = Some it"
  shows "wait_condition w True
         \<and> run_finish w = Inr (ContinueAsNew \<lparr>input_sale_item_id = sale_item_id it,
                                                input_quantity = quantity it,
                                                input_status = Some (current_status it)\<rparr>)
         \<and> run_finish w \<noteq> Inr Returned"
  using assms by (simp add: wait_condition_def run_finish_def)

theorem run_finish_restart_first_witness:
  "wait_condition
     (update_workflow (mark_fulfilled (run_init SaleItemWorkflow_init
        \<lparr>input_sale_item_id = ''1234567'', input_quantity = 10, input_status = None\<rparr>) ''ann'')) True
   \<and> run_finish
     (update_workflow (mark_fulfilled (run_init SaleItemWorkflow_init
        \<lparr>input_sale_item_id = ''1234567'', input_quantity = 10, input_status = None\<rparr>) ''ann''))
     = Inr (ContinueAsNew \<lparr>input_sale_item_id = ''1234567'', input_quantity = 10,
                            input_status = Some ''open''\<rparr>)"
proof -
  let ?w = "update_workflow (mark_fulfilled (run_init SaleItemWorkflow_init
        \<lparr>input_sale_item_id = ''1234567'', input_quantity = 10, input_status = None\<rparr>) ''ann'')"
  let ?it = "\<lparr>sale_item_id = ''1234567'', current_status = ''open'', quantity = 10\<rparr>"
  have h1: "should_update ?w" by (simp add: update_workflow_def)
  have h2: "sale_item_fulfilled ?w" by (simp add: update_workflow_def mark_fulfilled_def)
  have h3: "sale_item ?w = Some ?it"
    by (simp add: update_workflow_def mark_fulfilled_def run_init_def status_or_open_def)
  show ?thesis
    using run_finish_restart_first [OF h1 h2 h3] by simp
qed

section \<open>Properties of \<open>split_sale_item\<close>\<close>

text \<open>
  C3: for every initialized entity (the lock free, as it is whenever the handler enters its
  critical section) and every requested quantity \<open>q\<close>: if \<open>q\<close> is greater than the current
  quantity the handler fails with \<open>InsufficientQuantity\<close> and the workflow object, so the
  parent's quantity too, is unchanged; if \<open>q\<close> is at most the current quantity the parent's
  quantity becomes the old one minus \<open>q\<close>, nothing else of the entity changes, and a child
  workflow is started whose entity, as its \<open>run\<close> initializes it, has quantity \<open>q\<close> and
  status \<open>open\<close>.
\<close>

theorem split_sale_item_quantity:
  assumes "sale_item w = Some it" and "\<not> lock w"
  shows "(quantity it < q \<longrightarrow> split_sale_item_begin w q = (Inl InsufficientQuantity, w))
       \<and> (q \<le> quantity it \<longrightarrow>
            (\<exists>c w'. split_sale_item_begin w q = (Inr c, w')
               \<and> sale_item w' = Some (it\<lparr>quantity := quantity it - q\<rparr>)
               \<and> (\<exists>child. sale_item (run_init SaleItemWorkflow_init (child_input c)) = Some child
                     \<and> quantity child = q \<and> current_status child = ''open'')))"
  using assms
  by (simp add: split_sale_item_begin_def run_init_def status_or_open_def Let_def)

theorem split_sale_item_quantity_witness:
  "split_sale_item_begin
     (run_init SaleItemWorkflow_init
        \<lparr>input_sale_item_id = ''1234567'', input_quantity = 10, input_status = None\<rparr>) 11
   = (Inl InsufficientQuantity,
      run_init SaleItemWorkflow_init
        \<lparr>input_sale_item_id = ''1234567'', input_quantity = 10, input_status = None\<rparr>)
   \<and> (\<exists>c w'. split_sale_item_begin
        (run_init SaleItemWorkflow_init
           \<lparr>input_sale_item_id = ''1234567'', input_quantity = 10, input_status = None\<rparr>) 4
        = (Inr c, w')
        \<and> sale_item w' = Some \<lparr>sale_item_id = ''1234567'', current_status = ''open'', quantity = 6\<rparr>
        \<and> (\<exists>child. sale_item (run_init SaleItemWorkflow_init (child_input c)) = Some child
              \<and> quantity child = 4 \<and> current_status child = ''open''))"
proof -
  let ?w = "run_init SaleItemWorkflow_init
        \<lparr>input_sale_item_id = ''1234567'', input_quantity = 10, input_status = None\<rparr>"
  let ?it = "\<lparr>sale_item_id = ''1234567'', current_status = ''open'', quantity = 10\<rparr>"
  have h1: "sale_item ?w = Some ?it" by (simp add: run_init_def status_or_open_def)
  have h2: "\<not> lock ?w" by (simp add: run_init_def SaleItemWorkflow_init_def)
  show ?thesis
    using split_sale_item_quantity [OF h1 h2, of 11] split_sale_item_quantity [OF h1 h2, of 4]
    by simp
qed

text \<open>
  C10, as the code has it: every successful split gives the child the fixed identifier
  \<open>89101112\<close> and the fixed workflow id \<open>sale-item-poc-workflow-89101112\<close>, whatever the
  parent's identifier and whatever earlier splits produced.
\<close>

theorem split_sale_item_child_id:
  assumes "split_sale_item_begin w q = (Inr c, w')"
  shows "input_sale_item_id (child_input c) = ''89101112''
       \<and> child_id c = ''sale-item-poc-workflow-89101112''"
  using assms
  by (auto simp: split_sale_item_begin_def Let_def split: option.splits if_splits)

theorem split_sale_item_child_id_witness:
  "\<exists>c w'. split_sale_item_begin
     (run_init SaleItemWorkflow_init
        \<lparr>input_sale_item_id = ''1234567'', input_quantity = 10, input_status = None\<rparr>) 4
     = (Inr c, w')
     \<and> input_sale_item_id (child_input c) = ''89101112''
     \<and> child_id c = ''sale-item-poc-workflow-89101112''"
proof -
  let ?w = "run_init SaleItemWorkflow_init
        \<lparr>input_sale_item_id = ''1234567'', input_quantity = 10, input_status = None\<rparr>"
  obtain c w' where h: "split_sale_item_begin ?w 4 = (Inr c, w')"
    by (simp add: split_sale_item_begin_def run_init_def Let_def)
  from split_sale_item_child_id [OF h] h show ?thesis by blast
qed

text \<open>
  C10 as stated fails. Two successive successful splits of the entity of \<open>starter.py\<close>
  (the first child has ended before the second split) start two children with the same
  identifier; and a split of an entity whose own identifier is \<open>89101112\<close> (such as a
  child of an earlier split) starts a child with the identifier of its parent.
\<close>

theorem split_sale_item_child_id_counterexample:
  "map_option (map (input_sale_item_id \<circ> child_input) \<circ> children)
     (steps execution_init [Start starter_input, Split 3, ChildDone 0 (Inr ()), Split 2])
     = Some [''89101112'', ''89101112'']
   \<and> map_option (map_option sale_item_id \<circ> sale_item \<circ> wf)
     (steps execution_init
        [Start \<lparr>input_sale_item_id = ''89101112'', input_quantity = 3, input_status = None\<rparr>, Split 1])
     = Some (Some ''89101112'')
   \<and> map_option (map (input_sale_item_id \<circ> child_input) \<circ> children)
     (steps execution_init
        [Start \<lparr>input_sale_item_id = ''89101112'', input_quantity = 3, input_status = None\<rparr>, Split 1])
     = Some [''89101112'']"
  by (simp add: trace_defs)

section \<open>Properties of the executions\<close>

lemma set_remove_nth: "set (remove_nth k xs) \<subseteq> set xs"
  unfolding remove_nth_def using set_take_subset [of k xs] set_drop_subset [of "Suc k" xs] by auto

lemma update_status_dispatch_known:
  "update_status_dispatch w new_status = Inr a \<Longrightarrow> new_status \<noteq> []"
  by (auto simp: update_status_dispatch_def check_status_transition_iff transitions_entries
      split: option.splits if_splits)

lemma status_or_open_nonempty: "status_or_open st \<noteq> []"
  by (simp add: status_or_open_def split: option.splits)

lemma step_status_inv:
  assumes "status_inv i" and "step i ev = Some (r, i')"
  shows "status_inv i'"
proof (cases ev)
  case (Start inp)
  with assms show ?thesis
    by (auto simp: status_inv_def run_init_def status_or_open_nonempty split: if_splits)
next
  case (MarkFulfilled n)
  with assms show ?thesis
    by (auto simp: status_inv_def mark_fulfilled_def split: if_splits)
next
  case UpdateWorkflow
  with assms show ?thesis
    by (auto simp: status_inv_def update_workflow_def split: if_splits)
next
  case (UpdateStatus s)
  with assms show ?thesis
    by (auto simp: status_inv_def dest: update_status_dispatch_known split: if_splits sum.splits)
next
  case (ActivityDone k out)
  with assms(2) have k: "k < length (in_flight i)"
    by (auto split: if_splits)
  with ActivityDone assms(2) obtain s where s: "in_flight i ! k = PendingUpdate s"
    by (cases "in_flight i ! k") (auto split: if_splits)
  with k have "PendingUpdate s \<in> set (in_flight i)"
    using nth_mem [of k "in_flight i"] by simp
  with assms(1) have "s \<noteq> []" by (simp add: status_inv_def)
  with ActivityDone assms s show ?thesis
    using set_remove_nth [of k "in_flight i"]
    by (auto simp: status_inv_def update_status_resume_def Let_def
        split: if_splits sum.splits option.splits)
next
  case (Split q)
  with assms show ?thesis
    by (auto simp: status_inv_def split_sale_item_begin_def Let_def
        split: if_splits sum.splits option.splits prod.splits)
next
  case (ChildDone k out)
  with assms show ?thesis
    using set_remove_nth [of k "in_flight i"]
    by (auto simp: status_inv_def split_sale_item_resume_def
        split: if_splits pending.splits sum.splits prod.splits)
next
  case Wake
  with assms show ?thesis
    by (auto simp: status_inv_def split: if_splits)
qed

lemma steps_status_inv:
  "status_inv i \<Longrightarrow> steps i evs = Some i' \<Longrightarrow> status_inv i'"
  by (induction evs arbitrary: i) (auto split: option.splits dest: step_status_inv)

lemma status_inv_init: "status_inv execution_init"
  by (simp add: status_inv_def execution_init_def SaleItemWorkflow_init_def)

text \<open>
  C8: in every state that an execution reaches from its start by any sequence of events,
  if \<open>run\<close> is waiting, no handler is in flight and a restart has been requested, then the
  wait ends with continue-as-new on an input that carries exactly the entity's identifier,
  quantity and status, and a fresh instance started on that input answers \<open>get_sale_item\<close>
  with the very entity that \<open>get_sale_item\<close> gave before the restart.
\<close>

theorem restart_round_trip:
  assumes "steps execution_init evs = Some i"
    and "run_phase i = Waiting" and "in_flight i = []" and "should_update (wf i)"
  shows "\<exists>it i'. get_sale_item (wf i) = Inr it
           \<and> step i Wake =
               Some (NoReply, i\<lparr>run_phase := Finished (Inr (ContinueAsNew
                 \<lparr>input_sale_item_id = sale_item_id it, input_quantity = quantity it,
                  input_status = Some (current_status it)\<rparr>))\<rparr>)
           \<and> step execution_init (Start \<lparr>input_sale_item_id = sale_item_id it,
                 input_quantity = quantity it, input_status = Some (current_status it)\<rparr>)
               = Some (NoReply, i')
           \<and> get_sale_item (wf i') = Inr it"
proof -
  from steps_status_inv [OF status_inv_init assms(1)] have inv: "status_inv i" .
  with assms(2) obtain it where it: "sale_item (wf i) = Some it"
    by (auto simp: status_inv_def)
  with inv have ne: "current_status it \<noteq> []" by (simp add: status_inv_def)
  have 1: "get_sale_item (wf i) = Inr it" using it by (simp add: get_sale_item_def)
  have 2: "step i Wake =
               Some (NoReply, i\<lparr>run_phase := Finished (Inr (ContinueAsNew
                 \<lparr>input_sale_item_id = sale_item_id it, input_quantity = quantity it,
                  input_status = Some (current_status it)\<rparr>))\<rparr>)"
    using assms(2-4) it by (simp add: wait_condition_def run_finish_def)
  have 3: "get_sale_item (run_init SaleItemWorkflow_init \<lparr>input_sale_item_id = sale_item_id it,
                 input_quantity = quantity it, input_status = Some (current_status it)\<rparr>) = Inr it"
    using ne by (simp add: get_sale_item_def run_init_def status_or_open_def)
  have 4: "step execution_init (Start \<lparr>input_sale_item_id = sale_item_id it,
                 input_quantity = quantity it, input_status = Some (current_status it)\<rparr>)
           = Some (NoReply, execution_init\<lparr>wf := run_init SaleItemWorkflow_init
                 \<lparr>input_sale_item_id = sale_item_id it,
                 input_quantity = quantity it, input_status = Some (current_status it)\<rparr>,
                 run_phase := Waiting\<rparr>)"
    by (simp add: execution_init_def)
  from 1 2 3 4 show ?thesis by simp
qed

theorem restart_round_trip_witness:
  "\<exists>i'. step execution_init (Start \<lparr>input_sale_item_id = ''1234567'', input_quantity = 10,
             input_status = Some ''ready''\<rparr>) = Some (NoReply, i')
        \<and> get_sale_item (wf i')
            = Inr \<lparr>sale_item_id = ''1234567'', current_status = ''ready'', quantity = 10\<rparr>"
proof -
  let ?evs = "[Start starter_input, UpdateStatus ''ready'', ActivityDone 0 (Inr ()), UpdateWorkflow]"
  let ?it = "\<lparr>sale_item_id = ''1234567'', current_status = ''ready'', quantity = 10\<rparr>"
  let ?i = "\<lparr>wf = \<lparr>lock = False, should_update = True, sale_item_fulfilled = False,
                     sale_item = Some ?it, approver_name = None\<rparr>,
              run_phase = Waiting, in_flight = [], children = []\<rparr>"
  have h1: "steps execution_init ?evs = Some ?i" by (simp add: trace_defs)
  have h2: "run_phase ?i = Waiting" by simp
  have h3: "in_flight ?i = []" by simp
  have h4: "should_update (wf ?i)" by simp
  have g: "get_sale_item (wf ?i) = Inr ?it" by (simp add: get_sale_item_def)
  from restart_round_trip [OF h1 h2 h3 h4]
  obtain it i' where a: "get_sale_item (wf ?i) = Inr it"
    and b: "step execution_init (Start \<lparr>input_sale_item_id = sale_item_id it,
               input_quantity = quantity it, input_status = Some (current_status it)\<rparr>)
            = Some (NoReply, i')"
    and c: "get_sale_item (wf i') = Inr it"
    by blast
  from a g have "it = ?it" by simp
  with b c show ?thesis by auto
qed

lemma step_fulfilled:
  assumes "sale_item_fulfilled (wf i)" and "step i ev = Some (r, i')"
  shows "sale_item_fulfilled (wf i')"
  using assms
  by (cases ev)
     (auto simp: run_init_def mark_fulfilled_def update_workflow_def update_status_resume_def
        split_sale_item_begin_def split_sale_item_resume_def Let_def
      split: if_splits sum.splits option.splits pending.splits prod.splits)

lemma steps_fulfilled:
  "sale_item_fulfilled (wf i) \<Longrightarrow> steps i evs = Some i' \<Longrightarrow> sale_item_fulfilled (wf i')"
  by (induction evs arbitrary: i) (auto split: option.splits dest: step_fulfilled)

text \<open>
  C7: when an \<open>update_status\<close> to \<open>billed_approved\<close> in flight resumes after its activity
  has succeeded and returns the entity, the fulfilled flag is set, and it is still set
  after any further events; so once \<open>run\<close> is waiting with no handler in flight and no
  restart requested, the wait ends and \<open>run\<close> returns its result instead of continuing as
  new.
\<close>

theorem billed_approved_terminates:
  assumes "in_flight i0 ! k = PendingUpdate ''billed_approved''"
    and "step i0 (ActivityDone k (Inr ())) = Some (UpdateStatusReply (Inr it), i1)"
    and "steps i1 evs = Some i2"
    and "run_phase i2 = Waiting" and "in_flight i2 = []" and "\<not> should_update (wf i2)"
  shows "sale_item_fulfilled (wf i1) \<and> sale_item_fulfilled (wf i2)
       \<and> wait_condition (wf i2) (in_flight i2 = [])
       \<and> step i2 Wake = Some (NoReply, i2\<lparr>run_phase := Finished (Inr Returned)\<rparr>)"
proof -
  from assms(1,2) have f1: "sale_item_fulfilled (wf i1)"
    by (auto simp: update_status_resume_def Let_def split: if_splits option.splits)
  from steps_fulfilled [OF f1 assms(3)] have f2: "sale_item_fulfilled (wf i2)" .
  with assms(4-6) f1 show ?thesis
    by (simp add: wait_condition_def run_finish_def)
qed

theorem billed_approved_terminates_witness:
  "step \<lparr>wf = \<lparr>lock = False, should_update = False, sale_item_fulfilled = True,
               sale_item = Some \<lparr>sale_item_id = ''1234567'', current_status = ''billed_approved'',
                                  quantity = 10\<rparr>,
               approver_name = None\<rparr>,
         run_phase = Waiting, in_flight = [], children = []\<rparr> Wake
   = Some (NoReply,
       \<lparr>wf = \<lparr>lock = False, should_update = False, sale_item_fulfilled = True,
               sale_item = Some \<lparr>sale_item_id = ''1234567'', current_status = ''billed_approved'',
                                  quantity = 10\<rparr>,
               approver_name = None\<rparr>,
         run_phase = Finished (Inr Returned), in_flight = [], children = []\<rparr>)"
proof -
  let ?w = "\<lparr>lock = False, should_update = False, sale_item_fulfilled = False,
             sale_item = Some \<lparr>sale_item_id = ''1234567'', current_status = ''billed_pending'',
                                quantity = 10\<rparr>,
             approver_name = None\<rparr>"
  let ?i0 = "\<lparr>wf = ?w, run_phase = Waiting, in_flight = [PendingUpdate ''billed_approved''],
               children = []\<rparr>"
  let ?it = "\<lparr>sale_item_id = ''1234567'', current_status = ''billed_approved'', quantity = 10\<rparr>"
  let ?i1 = "\<lparr>wf = \<lparr>lock = False, should_update = False, sale_item_fulfilled = True,
                      sale_item = Some ?it, approver_name = None\<rparr>,
               run_phase = Waiting, in_flight = [], children = []\<rparr>"
  have reach: "steps execution_init
      [Start \<lparr>input_sale_item_id = ''1234567'', input_quantity = 10,
              input_status = Some ''billed_pending''\<rparr>, UpdateStatus ''billed_approved''] = Some ?i0"
    by (simp add: trace_defs)
  have h1: "in_flight ?i0 ! 0 = PendingUpdate ''billed_approved''" by simp
  have h2: "step ?i0 (ActivityDone 0 (Inr ())) = Some (UpdateStatusReply (Inr ?it), ?i1)"
    by (simp add: trace_defs)
  have h3: "steps ?i1 [] = Some ?i1" by simp
  have h4: "run_phase ?i1 = Waiting" by simp
  have h5: "in_flight ?i1 = []" by simp
  have h6: "\<not> should_update (wf ?i1)" by simp
  from billed_approved_terminates [OF h1 h2 h3 h4 h5 h6]
  have "step ?i1 Wake = Some (NoReply, ?i1\<lparr>run_phase := Finished (Inr Returned)\<rparr>)"
    by blast
  then show ?thesis by (simp del: step.simps)
qed

lemma step_quantities_nonneg:
  assumes "quantities_nonneg i" and "event_nonneg ev" and "step i ev = Some (r, i')"
  shows "quantities_nonneg i'"
  using assms
  by (cases ev)
     (auto simp: quantities_nonneg_def run_init_def mark_fulfilled_def update_workflow_def
        update_status_resume_def split_sale_item_begin_def split_sale_item_resume_def Let_def
      split: if_splits sum.splits option.splits pending.splits prod.splits)

text \<open>
  C4, as the code has it: when the start input's quantity is not negative and no split
  requests a negative quantity, then in every state that an execution reaches from its
  start by any sequence of events the entity's quantity is not negative and neither is
  the quantity of any child started. (A child is an execution of its own, started on an
  input with such a quantity, so the same holds of it.)
\<close>

theorem quantities_stay_nonneg:
  assumes "steps execution_init evs = Some i" and "\<forall>ev \<in> set evs. event_nonneg ev"
  shows "quantities_nonneg i"
proof -
  have "quantities_nonneg i0 \<Longrightarrow> \<forall>ev \<in> set evs. event_nonneg ev \<Longrightarrow> steps i0 evs = Some i
          \<Longrightarrow> quantities_nonneg i" for i0
    by (induction evs arbitrary: i0) (auto split: option.splits dest: step_quantities_nonneg)
  moreover have "quantities_nonneg execution_init"
    by (simp add: quantities_nonneg_def execution_init_def SaleItemWorkflow_init_def)
  ultimately show ?thesis using assms by blast
qed

theorem quantities_stay_nonneg_witness:
  "quantities_nonneg
     \<lparr>wf = \<lparr>lock = True, should_update = False, sale_item_fulfilled = False,
             sale_item = Some \<lparr>sale_item_id = ''1234567'', current_status = ''open'', quantity = 0\<rparr>,
             approver_name = None\<rparr>,
       run_phase = Waiting, in_flight = [PendingSplit],
       children = [\<lparr>child_input = \<lparr>input_sale_item_id = ''89101112'', input_quantity = 10,
                                      input_status = None\<rparr>,
                    child_id = ''sale-item-poc-workflow-89101112'',
                    child_task_queue = ''sale_item_poc_task_queue''\<rparr>]\<rparr>"
proof -
  let ?evs = "[Start starter_input, Split 11, Split 10]"
  have h1: "steps execution_init ?evs = Some
     \<lparr>wf = \<lparr>lock = True, should_update = False, sale_item_fulfilled = False,
             sale_item = Some \<lparr>sale_item_id = ''1234567'', current_status = ''open'', quantity = 0\<rparr>,
             approver_name = None\<rparr>,
       run_phase = Waiting, in_flight = [PendingSplit],
       children = [\<lparr>child_input = \<lparr>input_sale_item_id = ''89101112'', input_quantity = 10,
                                      input_status = None\<rparr>,
                    child_id = ''sale-item-poc-workflow-89101112'',
                    child_task_queue = ''sale_item_poc_task_queue''\<rparr>]\<rparr>"
    by (simp add: trace_defs)
  have h2: "\<forall>ev \<in> set ?evs. event_nonneg ev" by (simp add: starter_input_def)
  from quantities_stay_nonneg [OF h1 h2] show ?thesis .
qed

text \<open>
  C4 as stated fails. A split of \<open>-5\<close> from the entity of \<open>starter.py\<close> passes the test
  \<open>quantity < -5\<close>, starts a child of quantity \<open>-5\<close> and leaves the parent with \<open>15\<close>; and a
  start input of quantity \<open>-1\<close> gives an entity of quantity \<open>-1\<close>.
\<close>

theorem quantities_stay_nonneg_counterexample:
  "map_option quantities_nonneg (steps execution_init [Start starter_input, Split (- 5)]) = Some False
   \<and> map_option (map (input_quantity \<circ> child_input) \<circ> children)
       (steps execution_init [Start starter_input, Split (- 5)]) = Some [- 5]
   \<and> map_option (map_option quantity \<circ> sale_item \<circ> wf)
       (steps execution_init [Start starter_input, Split (- 5)]) = Some (Some 15)
   \<and> map_option quantities_nonneg
       (steps execution_init
          [Start \<lparr>input_sale_item_id = ''1234567'', input_quantity = - 1, input_status = None\<rparr>])
       = Some False"
  by (simp add: trace_defs quantities_nonneg_def)

end
